theory Spec2Isabelle
  imports Main
begin

section \<open>Values, exceptions and records of \<^verbatim>\<open>main.py\<close>\<close>

text \<open>
  The service of \<^verbatim>\<open>main.py\<close> is built on three external libraries: PyJWT
  (\<^verbatim>\<open>jwt.encode\<close>, \<^verbatim>\<open>jwt.decode\<close>), pwdlib (\<^verbatim>\<open>PasswordHash.hash\<close>,
  \<^verbatim>\<open>PasswordHash.verify\<close>) and sqlite3. The first two are parameters of the model (the
  record \<open>env\<close> below): every function of the source that calls them takes the
  environment as its first argument. One step of \<^verbatim>\<open>jwt.encode\<close> is written out, since
  it decides which expiry a token carries: the conversion of a \<^verbatim>\<open>datetime\<close> claim to
  whole seconds. The SQL statements are text of the source and are modelled directly,
  on a table with declared columns and rows.

  Exceptions are values: a function that can raise returns \<open>exn + 'a\<close>, with \<open>Inl\<close> the
  exception raised. Time is an integer number of microseconds (the resolution of
  Python's \<^verbatim>\<open>datetime\<close> and \<^verbatim>\<open>timedelta\<close>); the clock reading is an explicit argument.
\<close>

datatype jwt_failure =
    DecodeError
  | InvalidSignatureError
  | ExpiredSignatureError
  | OtherInvalidToken

datatype exn =
    InvalidTokenError jwt_failure
  | HTTPException nat string "(string \<times> string) list"
  | ValidationError
  | UnknownHashError
  | IntegrityError
  | OperationalError
  | OverflowError

text \<open>
  \<open>InvalidTokenError k\<close> stands for the subclasses of PyJWT's \<^verbatim>\<open>InvalidTokenError\<close>;
  \<open>HTTPException status detail headers\<close> is FastAPI's (no headers is the empty list);
  \<open>ValidationError\<close> is pydantic's; \<open>UnknownHashError\<close> is pwdlib's; \<open>IntegrityError\<close>
  and \<open>OperationalError\<close> are sqlite3's; \<open>OverflowError\<close> is Python's own, raised by
  \<^verbatim>\<open>datetime\<close> arithmetic that leaves the range of \<^verbatim>\<open>datetime\<close>.
\<close>

datatype claim_value = Str string | Num int | Datetime int | Null

type_synonym payload = "string \<rightharpoonup> claim_value"

record Token =
  access_token :: string
  token_type :: string

record User =
  username :: string
  email :: "string option"
  full_name :: "string option"
  disabled :: "bool option"


record UserInDB = User +
  hashed_password :: string

record login_form =
  form_username :: string
  form_password :: string

record env =
  pw_hash :: "string \<Rightarrow> string \<Rightarrow> string"
  pw_verify :: "string \<Rightarrow> string \<Rightarrow> exn + bool"
  jwt_sign :: "payload \<Rightarrow> string \<Rightarrow> string \<Rightarrow> string"
  jwt_decode :: "string \<Rightarrow> string \<Rightarrow> string list \<Rightarrow> int \<Rightarrow> exn + payload"
  startup_salt :: string

text \<open>
  \<open>pw_hash E salt password\<close> is \<^verbatim>\<open>password_hash.hash(password)\<close> with the salt it draws
  made explicit; \<open>pw_verify E password hash\<close> is \<^verbatim>\<open>password_hash.verify\<close>, which
  returns a boolean or raises; \<open>jwt_sign E claims key algorithm\<close> is the part of
  \<^verbatim>\<open>jwt.encode\<close> that serialises the claims and signs them (\<open>jwt_encode\<close> below is the
  whole call); \<open>jwt_decode E token key algorithms now\<close> is \<^verbatim>\<open>jwt.decode\<close> run when the
  clock reads \<open>now\<close>; \<open>startup_salt E\<close> is the salt drawn when the module is loaded and
  \<^verbatim>\<open>DUMMY_HASH\<close> is computed.
\<close>

definition numeric_dates :: "payload \<Rightarrow> payload" where
  "numeric_dates p =
     (\<lambda>k. if k = ''exp'' \<or> k = ''iat'' \<or> k = ''nbf''
          then (case p k of Some (Datetime t) \<Rightarrow> Some (Num (t div 1000000)) | v \<Rightarrow> v)
          else p k)"

definition jwt_encode :: "env \<Rightarrow> payload \<Rightarrow> string \<Rightarrow> string \<Rightarrow> string" where
  "jwt_encode E p key alg = jwt_sign E (numeric_dates p) key alg"

text \<open>
  \<open>jwt_encode\<close> is \<^verbatim>\<open>jwt.encode\<close>. Before it signs, PyJWT replaces a \<^verbatim>\<open>datetime\<close> under
  \<^verbatim>\<open>exp\<close>, \<^verbatim>\<open>iat\<close> or \<^verbatim>\<open>nbf\<close> by \<^verbatim>\<open>timegm(utctimetuple())\<close>, its whole seconds
  since the epoch: the microseconds are dropped. So the expiry a token carries is
  \<open>Num s\<close>, a number of seconds, where the source wrote \<open>Datetime t\<close> with
  \<open>s = t div 1000000\<close>.
\<close>

definition SECRET_KEY :: string where
  "SECRET_KEY = ''09d25e094faa6ca2556c818166b7a9563b93f7099f6f0f4caa6cf63b88e8d3e7''"

definition ALGORITHM :: string where
  "ALGORITHM = ''HS256''"

definition ACCESS_TOKEN_EXPIRE_MINUTES :: int where
  "ACCESS_TOKEN_EXPIRE_MINUTES = 30"

definition minutes :: "int \<Rightarrow> int" where
  "minutes m = m * 60000000"

definition datetime_min :: int where
  "datetime_min = - 62135596800000000"

definition datetime_max :: int where
  "datetime_max = 253402300799999999"

definition datetime_add :: "int \<Rightarrow> int \<Rightarrow> exn + int" where
  "datetime_add t d =
     (if datetime_min \<le> t + d \<and> t + d \<le> datetime_max then Inr (t + d) else Inl OverflowError)"

text \<open>
  \<open>datetime_min\<close> and \<open>datetime_max\<close> are \<^verbatim>\<open>datetime.min\<close> (the first instant of year 1)
  and \<^verbatim>\<open>datetime.max\<close> (the last microsecond of year 9999) in UTC, in microseconds
  since the epoch. \<open>datetime_add t d\<close> is \<^verbatim>\<open>t + d\<close> for a \<^verbatim>\<open>datetime\<close> and a
  \<^verbatim>\<open>timedelta\<close>: Python raises \<open>OverflowError\<close> when the sum is outside that range.
\<close>

definition DUMMY_HASH :: "env \<Rightarrow> string" where
  "DUMMY_HASH E = pw_hash E (startup_salt E) ''dummypassword''"

section \<open>The store: the table \<^verbatim>\<open>users\<close> of \<^verbatim>\<open>app.db\<close>\<close>

datatype sqlval = SqlNull | SqlInt int | SqlText string

record column =
  cname :: string
  ctype :: string
  notnull :: bool
  dflt :: sqlval
  uniq :: bool
  rowid_alias :: bool

type_synonym row = "(string \<times> sqlval) list"

record table =
  columns :: "column list"
  rows :: "row list"

text \<open>
  The database is the table \<^verbatim>\<open>users\<close> if it exists. A column carries its declared type,
  its \<^verbatim>\<open>NOT NULL\<close>, \<^verbatim>\<open>DEFAULT\<close> (\<open>SqlNull\<close> when there is none) and \<^verbatim>\<open>UNIQUE\<close>
  clauses, and whether it is the \<^verbatim>\<open>INTEGER PRIMARY KEY AUTOINCREMENT\<close> column. A row
  maps column names to values. The values are those the statements of \<^verbatim>\<open>main.py\<close>
  write: null, integers and text.
\<close>

definition lower_char :: "char \<Rightarrow> char" where
  "lower_char c =
     (case map_of (zip ''ABCDEFGHIJKLMNOPQRSTUVWXYZ'' ''abcdefghijklmnopqrstuvwxyz'') c of
        None \<Rightarrow> c
      | Some l \<Rightarrow> l)"

definition same_name :: "string \<Rightarrow> string \<Rightarrow> bool" where
  "same_name a b \<longleftrightarrow> map lower_char a = map lower_char b"

text \<open>
  \<open>same_name\<close> compares two names without regard to the case of ASCII letters, as
  SQLite does when a column is added and as pydantic does when it reads a boolean from
  a word.
\<close>

type_synonym database = "table option"

definition users_columns :: "column list" where
  "users_columns =
    [\<lparr>cname = ''id'', ctype = ''INTEGER'', notnull = False, dflt = SqlNull,
       uniq = True, rowid_alias = True\<rparr>,
     \<lparr>cname = ''username'', ctype = ''TEXT'', notnull = True, dflt = SqlNull,
       uniq = True, rowid_alias = False\<rparr>,
     \<lparr>cname = ''full_name'', ctype = ''TEXT'', notnull = False, dflt = SqlNull,
       uniq = False, rowid_alias = False\<rparr>,
     \<lparr>cname = ''email'', ctype = ''TEXT'', notnull = False, dflt = SqlNull,
       uniq = False, rowid_alias = False\<rparr>,
     \<lparr>cname = ''hashed_password'', ctype = ''TEXT'', notnull = True, dflt = SqlNull,
       uniq = False, rowid_alias = False\<rparr>,
     \<lparr>cname = ''disabled'', ctype = ''INTEGER'', notnull = True, dflt = SqlInt 0,
       uniq = False, rowid_alias = False\<rparr>]"


definition table_info :: "table \<Rightarrow> string list" where
  "table_info t = map cname (columns t)"


definition cell :: "row \<Rightarrow> string \<Rightarrow> sqlval" where
  "cell r k = (case map_of r k of None \<Rightarrow> SqlNull | Some v \<Rightarrow> v)"

definition user_columns :: "string list" where
  "user_columns = [''username'', ''full_name'', ''email'', ''hashed_password'', ''disabled'']"

definition select_user :: "table \<Rightarrow> string \<Rightarrow> exn + row option" where
  "select_user t name =
     (if \<not> set user_columns \<subseteq> set (table_info t) then Inl OperationalError
      else Inr (find (\<lambda>r. cell r ''username'' = SqlText name) (rows t)))"




text \<open>
  \<open>select_user\<close> is the \<^verbatim>\<open>SELECT ... WHERE username = ?\<close> of \<^verbatim>\<open>get_user\<close> with
  \<^verbatim>\<open>fetchone\<close>: it fails when the statement names a column the table lacks, and
  otherwise gives the first matching row. \<open>add_column\<close> is \<^verbatim>\<open>ALTER TABLE ... ADD COLUMN\<close>:
  it fails with ``duplicate column name'' when the table has a column of that name in
  any case of its letters. \<open>insert_user\<close> is the \<^verbatim>\<open>INSERT\<close> of
  \<^verbatim>\<open>create_user\<close>: the five named columns get the bound values (\<^verbatim>\<open>disabled\<close> the
  literal 0), the key column the next row id, every other column its default; the
  statement fails on a \<^verbatim>\<open>NOT NULL\<close> or \<^verbatim>\<open>UNIQUE\<close> violation and then changes nothing.
\<close>

section \<open>The functions of \<^verbatim>\<open>main.py\<close>\<close>

definition optional_str :: "sqlval \<Rightarrow> exn + string option" where
  "optional_str v =
     (case v of SqlNull \<Rightarrow> Inr None | SqlText s \<Rightarrow> Inr (Some s) | SqlInt _ \<Rightarrow> Inl ValidationError)"

definition optional_bool :: "sqlval \<Rightarrow> exn + bool option" where
  "optional_bool v =
     (case v of SqlNull \<Rightarrow> Inr None
      | SqlInt i \<Rightarrow> (if i = 0 then Inr (Some False) else if i = 1 then Inr (Some True)
                    else Inl ValidationError)
      | SqlText w \<Rightarrow>
          (if \<exists>f \<in> set [''0'', ''off'', ''f'', ''false'', ''n'', ''no'']. same_name w f
           then Inr (Some False)
           else if \<exists>t \<in> set [''1'', ''on'', ''t'', ''true'', ''y'', ''yes'']. same_name w t
           then Inr (Some True)
           else Inl ValidationError))"

definition UserInDB_of_row :: "row \<Rightarrow> exn + UserInDB" where
  "UserInDB_of_row r =
     (case cell r ''username'' of
        SqlText u \<Rightarrow>
          (case optional_str (cell r ''email'') of
             Inl e \<Rightarrow> Inl e
           | Inr mail \<Rightarrow>
               (case optional_str (cell r ''full_name'') of
                  Inl e \<Rightarrow> Inl e
                | Inr fullname \<Rightarrow>
                    (case optional_bool (cell r ''disabled'') of
                       Inl e \<Rightarrow> Inl e
                     | Inr dis \<Rightarrow>
                         (case cell r ''hashed_password'' of
                            SqlText h \<Rightarrow>
                              Inr \<lparr>username = u, email = mail, full_name = fullname,
                                   disabled = dis, hashed_password = h\<rparr>
                          | _ \<Rightarrow> Inl ValidationError))))
      | _ \<Rightarrow> Inl ValidationError)"

text \<open>
  \<open>UserInDB_of_row\<close> is \<^verbatim>\<open>UserInDB(**dict(row))\<close>: pydantic checks each field against
  its annotation (\<^verbatim>\<open>str\<close>, \<^verbatim>\<open>str | None\<close>, \<^verbatim>\<open>bool | None\<close>) and raises
  \<open>ValidationError\<close> otherwise. For a boolean it accepts the integers 0 and 1 and the
  words \<^verbatim>\<open>0 off f false n no\<close> and \<^verbatim>\<open>1 on t true y yes\<close> in either case.
  \<^verbatim>\<open>main.py\<close> itself only ever writes the integer 0 there.
\<close>

definition get_user :: "database \<Rightarrow> string \<Rightarrow> exn + UserInDB option" where
  "get_user db name =
     (case db of
        None \<Rightarrow> Inl OperationalError
      | Some t \<Rightarrow>
          (case select_user t name of
             Inl e \<Rightarrow> Inl e
           | Inr None \<Rightarrow> Inr None
           | Inr (Some r) \<Rightarrow>
               (case UserInDB_of_row r of Inl e \<Rightarrow> Inl e | Inr u \<Rightarrow> Inr (Some u))))"



type_synonym verify_call = "string \<times> string"

definition verify_password :: "env \<Rightarrow> string \<Rightarrow> string \<Rightarrow> (exn + bool) \<times> verify_call list" where
  "verify_password E plain_password hashed = (pw_verify E plain_password hashed, [(plain_password, hashed)])"

text \<open>
  \<open>verify_password\<close> returns what \<^verbatim>\<open>password_hash.verify\<close> returns or raises, and
  the record of the one verification it ran (plaintext and hash), so that the number of
  verifications a caller performs can be read off its result.
\<close>

definition authenticate_user ::
  "env \<Rightarrow> database \<Rightarrow> string \<Rightarrow> string \<Rightarrow> (exn + UserInDB option) \<times> verify_call list" where
  "authenticate_user E db name pw =
     (case get_user db name of
        Inl e \<Rightarrow> (Inl e, [])
      | Inr None \<Rightarrow>
          (case verify_password E pw (DUMMY_HASH E) of
             (Inl e, calls) \<Rightarrow> (Inl e, calls)
           | (Inr _, calls) \<Rightarrow> (Inr None, calls))
      | Inr (Some user) \<Rightarrow>
          (case verify_password E pw (hashed_password user) of
             (Inl e, calls) \<Rightarrow> (Inl e, calls)
           | (Inr ok, calls) \<Rightarrow> (if \<not> ok then (Inr None, calls) else (Inr (Some user), calls))))"

text \<open>The result \<open>Inr None\<close> of \<open>authenticate_user\<close> is the \<^verbatim>\<open>False\<close> of the source.\<close>

definition create_access_token :: "env \<Rightarrow> int \<Rightarrow> payload \<Rightarrow> int option \<Rightarrow> exn + string" where
  "create_access_token E now data expires_delta =
     (let to_encode = data in
      case (case expires_delta of
              None \<Rightarrow> datetime_add now (minutes 15)
            | Some d \<Rightarrow> (if d \<noteq> 0 then datetime_add now d else datetime_add now (minutes 15))) of
        Inl e \<Rightarrow> Inl e
      | Inr expire \<Rightarrow>
          Inr (jwt_encode E (to_encode(''exp'' \<mapsto> Datetime expire)) SECRET_KEY ALGORITHM))"

text \<open>
  A \<^verbatim>\<open>timedelta\<close> is false in a condition exactly when it is zero, so
  \<^verbatim>\<open>if expires_delta:\<close> takes the first branch for \<open>Some d\<close> with \<open>d \<noteq> 0\<close>. The sum that
  gives \<^verbatim>\<open>expire\<close> can raise \<open>OverflowError\<close>, and then nothing is encoded.
\<close>

definition credentials_exception :: exn where
  "credentials_exception =
     HTTPException 401 ''Could not validate credentials'' [(''WWW-Authenticate'', ''Bearer'')]"

definition get_current_user :: "env \<Rightarrow> int \<Rightarrow> database \<Rightarrow> string \<Rightarrow> exn + UserInDB" where
  "get_current_user E now db token =
     (case jwt_decode E token SECRET_KEY [ALGORITHM] now of
        Inl (InvalidTokenError _) \<Rightarrow> Inl credentials_exception
      | Inl e \<Rightarrow> Inl e
      | Inr claims \<Rightarrow>
          (case claims ''sub'' of
             None \<Rightarrow> Inl credentials_exception
           | Some Null \<Rightarrow> Inl credentials_exception
           | Some (Str name) \<Rightarrow>
               (case get_user db name of
                  Inl e \<Rightarrow> Inl e
                | Inr None \<Rightarrow> Inl credentials_exception
                | Inr (Some user) \<Rightarrow> Inr user)
           | Some _ \<Rightarrow> Inl ValidationError))"

text \<open>
  \<^verbatim>\<open>payload.get("sub")\<close> is \<^verbatim>\<open>None\<close> when the claim is missing or null; a subject that
  is not a string fails the validation of \<^verbatim>\<open>TokenData\<close>, which the \<^verbatim>\<open>except\<close> clause
  does not catch.
\<close>

definition get_current_active_user :: "'a User_scheme \<Rightarrow> exn + 'a User_scheme" where
  "get_current_active_user current_user =
     (if disabled current_user = Some True then Inl (HTTPException 400 ''Inactive user'' [])
      else Inr current_user)"

definition login_for_access_token :: "env \<Rightarrow> int \<Rightarrow> database \<Rightarrow> login_form \<Rightarrow> exn + Token" where
  "login_for_access_token E now db form_data =
     (case fst (authenticate_user E db (form_username form_data) (form_password form_data)) of
        Inl e \<Rightarrow> Inl e
      | Inr None \<Rightarrow>
          Inl (HTTPException 401 ''Incorrect username or password''
                 [(''WWW-Authenticate'', ''Bearer'')])
      | Inr (Some user) \<Rightarrow>
          (let access_token_expires = minutes ACCESS_TOKEN_EXPIRE_MINUTES in
           case create_access_token E now [''sub'' \<mapsto> Str (username user)]
                  (Some access_token_expires) of
             Inl e \<Rightarrow> Inl e
           | Inr tok \<Rightarrow> Inr \<lparr>access_token = tok, token_type = ''bearer''\<rparr>))"






text \<open>
  \<open>init_db\<close> reads the column names once (\<^verbatim>\<open>PRAGMA table_info\<close>) and runs the four
  \<^verbatim>\<open>ALTER TABLE ... ADD COLUMN\<close> statements of the source in their order, each guarded
  by the test against that one reading, which compares the names as they are written;
  a statement that fails ends the run and leaves the columns added before it in place.
  Then it seeds the default user when \<open>get_user\<close> finds none. The salt is the one the
  hasher draws for the seed password.
\<close>

section \<open>A concrete environment\<close>

text \<open>
  A small hasher and token codec with the interface of the two libraries, to run the
  model on concrete inputs. The hasher recognises its own hashes by their prefix
  and, as pwdlib does, raises \<open>UnknownHashError\<close> on any other string. The codec writes
  the expiry, in microseconds, in unary before the subject, tags the token with the
  first characters of the key, and rejects a token whose expiry is not after the clock
  reading.
\<close>

fun strip_prefix :: "string \<Rightarrow> string \<Rightarrow> string option" where
  "strip_prefix [] ys = Some ys"
| "strip_prefix (x # xs) [] = None"
| "strip_prefix (x # xs) (y # ys) = (if x = y then strip_prefix xs ys else None)"

definition sample_hash :: "string \<Rightarrow> string \<Rightarrow> string" where
  "sample_hash salt pw = ''$sample$'' @ salt @ ''$'' @ pw"

definition sample_verify :: "string \<Rightarrow> string \<Rightarrow> exn + bool" where
  "sample_verify pw h =
     (case strip_prefix ''$sample$'' h of
        None \<Rightarrow> Inl UnknownHashError
      | Some rest \<Rightarrow> Inr (drop (length rest - Suc (length pw)) rest = CHR ''$'' # pw))"

definition unary :: "int \<Rightarrow> string" where
  "unary e = (if e < 0 then CHR ''-'' else CHR ''+'') # replicate (nat \<bar>e\<bar>) CHR ''1''"

definition sample_sign :: "payload \<Rightarrow> string \<Rightarrow> string \<Rightarrow> string" where
  "sample_sign p key alg =
     (case p ''exp'' of Some (Num s) \<Rightarrow> unary (s * 1000000) | _ \<Rightarrow> ''?'')
     @ ''.'' @ take 4 key @ ''.'' @ (case p ''sub'' of Some (Str s) \<Rightarrow> s | _ \<Rightarrow> [])"

definition sample_decode :: "string \<Rightarrow> string \<Rightarrow> string list \<Rightarrow> int \<Rightarrow> exn + payload" where
  "sample_decode tok key algs now =
     (case tok of
        [] \<Rightarrow> Inl (InvalidTokenError DecodeError)
      | c # r \<Rightarrow>
          (if c \<noteq> CHR ''-'' \<and> c \<noteq> CHR ''+'' then Inl (InvalidTokenError DecodeError)
           else
             (let n = int (length (takeWhile (\<lambda>x. x = CHR ''1'') r));
                  e = (if c = CHR ''-'' then - n else n)
              in case strip_prefix ''.'' (dropWhile (\<lambda>x. x = CHR ''1'') r) of
                   None \<Rightarrow> Inl (InvalidTokenError DecodeError)
                 | Some signed \<Rightarrow>
                     (case strip_prefix (take 4 key @ ''.'') signed of
                        None \<Rightarrow> Inl (InvalidTokenError InvalidSignatureError)
                      | Some s \<Rightarrow>
                          (if e \<le> now then Inl (InvalidTokenError ExpiredSignatureError)
                           else Inr [''sub'' \<mapsto> Str s, ''exp'' \<mapsto> Num (e div 1000000)])))))"

definition sample_env :: env where
  "sample_env = \<lparr>pw_hash = sample_hash, pw_verify = sample_verify,
                  jwt_sign = sample_sign, jwt_decode = sample_decode,
                  startup_salt = ''s0''\<rparr>"


definition sample_db :: database where
  "sample_db = Some \<lparr>columns = users_columns, rows =
     [[(''id'', SqlInt 1), (''username'', SqlText ''johndoe''), (''full_name'', SqlText ''John Doe''),
       (''email'', SqlText ''johndoe@example.com''),
       (''hashed_password'', SqlText ''$sample$s1$secret''), (''disabled'', SqlInt 0)],
      [(''id'', SqlInt 2), (''username'', SqlText ''alice''), (''full_name'', SqlNull),
       (''email'', SqlNull),
       (''hashed_password'', SqlText ''$sample$s2$wonderland123''), (''disabled'', SqlInt 1)],
      [(''id'', SqlInt 3), (''username'', SqlText ''legacy''), (''full_name'', SqlNull),
       (''email'', SqlNull),
       (''hashed_password'', SqlText []), (''disabled'', SqlInt 0)]]\<rparr>"

definition johndoe :: UserInDB where
  "johndoe = \<lparr>username = ''johndoe'', email = Some ''johndoe@example.com'',
     full_name = Some ''John Doe'', disabled = Some False,
     hashed_password = ''$sample$s1$secret''\<rparr>"

definition alice :: UserInDB where
  "alice = \<lparr>username = ''alice'', email = None, full_name = None, disabled = Some True,
     hashed_password = ''$sample$s2$wonderland123''\<rparr>"

definition legacy :: UserInDB where
  "legacy = \<lparr>username = ''legacy'', email = None, full_name = None, disabled = Some False,
     hashed_password = []\<rparr>"


text \<open>
  The sample store holds the seeded user, a disabled user, and a user whose row was
  created before the column \<^verbatim>\<open>hashed_password\<close> existed and so holds the migration
  default, the empty string. \<open>carol\<close> is a registration request for a name the store does not
  hold.
\<close>

section \<open>What is asked of the token library\<close>

definition rejects_expired :: "env \<Rightarrow> bool" where
  "rejects_expired E \<longleftrightarrow>
     (\<forall>p s t. p ''exp'' = Some (Num s) \<longrightarrow> s * 1000000 \<le> t \<longrightarrow>
        jwt_decode E (jwt_sign E p SECRET_KEY ALGORITHM) SECRET_KEY [ALGORITHM] t
          = Inl (InvalidTokenError ExpiredSignatureError))"

text \<open>
  \<open>rejects_expired E\<close>: the decoder raises \<^verbatim>\<open>ExpiredSignatureError\<close> on a token signed
  with the same key once the clock has reached the \<^verbatim>\<open>exp\<close> claim, a number of seconds.
  The comparison is made inside \<^verbatim>\<open>jwt.decode\<close>, not in \<^verbatim>\<open>main.py\<close>.
\<close>

definition round_trips :: "env \<Rightarrow> bool" where
  "round_trips E \<longleftrightarrow>
     (\<forall>p s t u. p ''exp'' = Some (Num s) \<longrightarrow> t < s * 1000000 \<longrightarrow> p ''sub'' = Some (Str u) \<longrightarrow>
        (\<exists>c. jwt_decode E (jwt_sign E p SECRET_KEY ALGORITHM) SECRET_KEY [ALGORITHM] t = Inr c
             \<and> c ''sub'' = Some (Str u)))"

text \<open>
  \<open>round_trips E\<close>: before the expiry, the decoder accepts a token signed with the same
  key and gives back the subject that went in.
\<close>

section \<open>Stores to run the schema migration on\<close>




text \<open>
  \<open>legacy_table\<close> is a table written by an older version, with the key and the username
  only; \<open>migrated_table\<close> and \<open>seeded_table\<close> are what \<open>init_db\<close> makes of it and of an
  empty database (lemmas \<open>init_db_legacy\<close> and \<open>init_db_fresh\<close> below).
\<close>

section \<open>The concrete environment, evaluated\<close>

lemmas store_defs = get_user_def select_user_def user_columns_def table_info_def
  users_columns_def cell_def UserInDB_of_row_def optional_str_def optional_bool_def


lemma get_user_alice: "get_user sample_db ''alice'' = Inr (Some alice)"
  by (simp add: sample_db_def alice_def store_defs)

lemma get_user_legacy: "get_user sample_db ''legacy'' = Inr (Some legacy)"
  by (simp add: sample_db_def legacy_def store_defs)

lemma get_user_bob: "get_user sample_db ''bob'' = Inr None"
  by (simp add: sample_db_def store_defs)

lemma sample_verify_alice:
  "pw_verify sample_env ''wonderland123'' (hashed_password alice) = Inr True"
  by (simp add: sample_env_def sample_verify_def alice_def)

lemma sample_verify_wrong: "pw_verify sample_env ''wrong'' (hashed_password alice) = Inr False"
  by (simp add: sample_env_def sample_verify_def alice_def)

lemma sample_verify_empty: "pw_verify sample_env ''secret'' [] = Inl UnknownHashError"
  by (simp add: sample_env_def sample_verify_def)

lemma sample_dummy_hash: "DUMMY_HASH sample_env = ''$sample$s0$dummypassword''"
  by (simp add: DUMMY_HASH_def sample_env_def sample_hash_def)

lemma sample_verify_dummy:
  "pw_verify sample_env ''guess'' ''$sample$s0$dummypassword'' = Inr False"
  by (simp add: sample_env_def sample_verify_def)

lemma authenticate_alice:
  "fst (authenticate_user sample_env sample_db ''alice'' ''wonderland123'') = Inr (Some alice)"
  by (simp add: authenticate_user_def verify_password_def get_user_alice sample_verify_alice)

lemma strip_prefix_append: "strip_prefix xs (xs @ ys) = Some ys"
  by (induction xs) auto

lemma takeWhile_ones:
  "y \<noteq> x \<Longrightarrow> takeWhile (\<lambda>c. c = x) (replicate n x @ y # ys) = replicate n x"
  by (induction n) auto

lemma dropWhile_ones:
  "y \<noteq> x \<Longrightarrow> dropWhile (\<lambda>c. c = x) (replicate n x @ y # ys) = y # ys"
  by (induction n) auto

lemma sample_decode_sign:
  assumes "p ''exp'' = Some (Num secs)" and e: "e = secs * 1000000"
  shows "sample_decode (sample_sign p key alg) key algs t =
           (if e \<le> t then Inl (InvalidTokenError ExpiredSignatureError)
            else Inr [''sub'' \<mapsto> Str (case p ''sub'' of Some (Str s) \<Rightarrow> s | _ \<Rightarrow> []),
                      ''exp'' \<mapsto> Num secs])"
proof -
  let ?s = "case p ''sub'' of Some (Str s) \<Rightarrow> s | _ \<Rightarrow> []"
  let ?k = "take 4 key @ ''.''"
  let ?r = "replicate (nat \<bar>e\<bar>) CHR ''1'' @ CHR ''.'' # (?k @ ?s)"
  have enc: "sample_sign p key alg = (if e < 0 then CHR ''-'' else CHR ''+'') # ?r"
    using assms by (simp add: sample_sign_def unary_def)
  have tw: "takeWhile (\<lambda>x. x = CHR ''1'') ?r = replicate (nat \<bar>e\<bar>) CHR ''1''"
    by (rule takeWhile_ones) simp
  have dw: "dropWhile (\<lambda>x. x = CHR ''1'') ?r = CHR ''.'' # (?k @ ?s)"
    by (rule dropWhile_ones) simp
  have dec: "sample_decode ((if e < 0 then CHR ''-'' else CHR ''+'') # ?r) key algs t =
      (if (if e < 0 then - int (nat \<bar>e\<bar>) else int (nat \<bar>e\<bar>)) \<le> t
       then Inl (InvalidTokenError ExpiredSignatureError)
       else Inr [''sub'' \<mapsto> Str ?s,
                 ''exp'' \<mapsto> Num ((if e < 0 then - int (nat \<bar>e\<bar>) else int (nat \<bar>e\<bar>))
                                    div 1000000)])"
    unfolding sample_decode_def list.case tw dw Let_def
    by (simp add: strip_prefix_append del: append.simps append_assoc)
  have "(if e < 0 then - int (nat \<bar>e\<bar>) else int (nat \<bar>e\<bar>)) = e"
    by simp
  moreover have "e div 1000000 = secs"
    using e by simp
  ultimately show ?thesis using enc dec by simp
qed

lemma sample_rejects_expired: "rejects_expired sample_env"
  by (simp add: rejects_expired_def sample_env_def sample_decode_sign)

lemma sample_decode_garbage:
  "jwt_decode sample_env ''not a token'' SECRET_KEY [ALGORITHM] 5
     = Inl (InvalidTokenError DecodeError)"
  by (simp add: sample_env_def sample_decode_def)

lemma sample_decode_forged:
  "jwt_decode sample_env ''+1111111.beef.alice'' SECRET_KEY [ALGORITHM] 5
     = Inl (InvalidTokenError InvalidSignatureError)"
  by (simp add: sample_env_def sample_decode_def SECRET_KEY_def)

lemma sample_decode_expired:
  "jwt_decode sample_env ''+111.09d2.alice'' SECRET_KEY [ALGORITHM] 5
     = Inl (InvalidTokenError ExpiredSignatureError)"
  by (simp add: sample_env_def sample_decode_def SECRET_KEY_def)

lemma sample_decode_bob:
  "jwt_decode sample_env ''+1111111.09d2.bob'' SECRET_KEY [ALGORITHM] 5
     = Inr [''sub'' \<mapsto> Str ''bob'', ''exp'' \<mapsto> Num 0]"
  by (simp add: sample_env_def sample_decode_def SECRET_KEY_def)

lemma sample_round_trips: "round_trips sample_env"
  by (simp add: round_trips_def sample_env_def sample_decode_sign)





section \<open>Facts about the store\<close>

lemma get_user_username: "get_user db name = Inr (Some user) \<Longrightarrow> username user = name"
  by (auto simp: get_user_def select_user_def UserInDB_of_row_def
      split: option.splits sum.splits if_splits sqlval.splits dest!: find_Some_iff [THEN iffD1])















lemma numeric_dates_exp:
  "numeric_dates (p(''exp'' \<mapsto> Datetime t)) = (numeric_dates p)(''exp'' \<mapsto> Num (t div 1000000))"
  by (rule ext) (simp add: numeric_dates_def)

lemma numeric_dates_sub: "numeric_dates [''sub'' \<mapsto> Str u] = [''sub'' \<mapsto> Str u]"
  by (rule ext) (simp add: numeric_dates_def)

lemma numeric_dates_empty: "numeric_dates Map.empty = Map.empty"
  by (rule ext) (simp add: numeric_dates_def)

lemma whole_seconds_le: "t div 1000000 * 1000000 \<le> (t :: int)"
proof -
  have "0 \<le> t mod 1000000" by simp
  moreover have "t = t div 1000000 * 1000000 + t mod 1000000" by simp
  ultimately show ?thesis by linarith
qed

lemma whole_seconds_gt: "(t :: int) - 1000000 < t div 1000000 * 1000000"
proof -
  have "t mod 1000000 < 1000000" by simp
  moreover have "t = t div 1000000 * 1000000 + t mod 1000000" by simp
  ultimately show ?thesis by linarith
qed

lemma create_access_token_eq:
  assumes "delta = (case expires_delta of None \<Rightarrow> minutes 15
                    | Some x \<Rightarrow> if x \<noteq> 0 then x else minutes 15)"
  shows "create_access_token E now data expires_delta =
    (if datetime_min \<le> now + delta \<and> now + delta \<le> datetime_max
     then Inr (jwt_sign E ((numeric_dates data)(''exp'' \<mapsto> Num ((now + delta) div 1000000)))
                SECRET_KEY ALGORITHM)
     else Inl OverflowError)"
  using assms
  by (simp add: create_access_token_def datetime_add_def jwt_encode_def numeric_dates_exp
      split: option.splits)

lemma issued_token_resolves:
  assumes rt: "round_trips E" and stored: "get_user db name = Inr (Some user)"
    and range: "datetime_min \<le> now + minutes 30" "now + minutes 30 \<le> datetime_max"
  shows "\<exists>tok. create_access_token E now [''sub'' \<mapsto> Str (username user)]
                 (Some (minutes ACCESS_TOKEN_EXPIRE_MINUTES)) = Inr tok
             \<and> get_current_user E now db tok = Inr user"
proof -
  let ?s = "(now + minutes 30) div 1000000"
  let ?p = "[''sub'' \<mapsto> Str (username user), ''exp'' \<mapsto> Num ?s]"
  have tok: "create_access_token E now [''sub'' \<mapsto> Str (username user)]
               (Some (minutes ACCESS_TOKEN_EXPIRE_MINUTES))
             = Inr (jwt_sign E ?p SECRET_KEY ALGORITHM)"
    using range
    by (subst create_access_token_eq [where delta = "minutes 30"])
       (simp_all add: ACCESS_TOKEN_EXPIRE_MINUTES_def minutes_def numeric_dates_sub)
  have "now < ?s * 1000000"
    using whole_seconds_gt [of "now + minutes 30"] by (simp add: minutes_def)
  moreover have "?p ''exp'' = Some (Num ?s)" and "?p ''sub'' = Some (Str name)"
    using get_user_username [OF stored] by simp_all
  ultimately obtain c where
    "jwt_decode E (jwt_sign E ?p SECRET_KEY ALGORITHM) SECRET_KEY [ALGORITHM] now = Inr c"
    and "c ''sub'' = Some (Str name)"
    using rt unfolding round_trips_def by blast
  with stored tok show ?thesis
    by (simp add: get_current_user_def)
qed

lemma issued_token_resolves_sample:
  "\<exists>tok. create_access_token sample_env 1000 [''sub'' \<mapsto> Str ''alice'']
            (Some (minutes ACCESS_TOKEN_EXPIRE_MINUTES)) = Inr tok
        \<and> get_current_user sample_env 1000 sample_db tok = Inr alice"
  using issued_token_resolves [OF sample_round_trips get_user_alice, of 1000]
  by (simp add: alice_def minutes_def datetime_min_def datetime_max_def)

section \<open>Authentication by password\<close>

text \<open>
  Claim C2. When the username is absent from the store, \<open>authenticate_user\<close> runs
  exactly one password verification, of the supplied password against the fixed
  \<open>DUMMY_HASH\<close>, and then reports failure (or lets the hasher's exception through);
  when the user exists and the password is wrong it also runs exactly one
  verification, against the stored hash, and reports failure. Both failure paths
  perform one verification.
\<close>

theorem one_verification_on_each_failure_path:
  assumes "get_user db absent = Inr None"
    and "get_user db name = Inr (Some user)"
    and "pw_verify E pw (hashed_password user) = Inr False"
  shows "snd (authenticate_user E db absent pw') = [(pw', DUMMY_HASH E)]
    \<and> fst (authenticate_user E db absent pw')
         = (case pw_verify E pw' (DUMMY_HASH E) of Inl e \<Rightarrow> Inl e | Inr _ \<Rightarrow> Inr None)
    \<and> snd (authenticate_user E db name pw) = [(pw, hashed_password user)]
    \<and> fst (authenticate_user E db name pw) = Inr None
    \<and> length (snd (authenticate_user E db absent pw')) = 1
    \<and> length (snd (authenticate_user E db name pw)) = 1"
  using assms by (simp add: authenticate_user_def verify_password_def split: sum.splits)

theorem one_verification_on_each_failure_path_witness:
  "authenticate_user sample_env sample_db ''bob'' ''guess''
     = (Inr None, [(''guess'', ''$sample$s0$dummypassword'')])
   \<and> authenticate_user sample_env sample_db ''alice'' ''wrong''
     = (Inr None, [(''wrong'', ''$sample$s2$wonderland123'')])"
  using one_verification_on_each_failure_path [OF get_user_bob get_user_alice sample_verify_wrong,
      of "''guess''"] sample_dummy_hash sample_verify_dummy
  by (simp add: prod_eq_iff alice_def)

text \<open>
  Against claim C6: \<open>verify_password\<close> hands the stored hash to the hasher and returns
  what it returns. On the empty hash of the sample store's legacy user the hasher
  raises \<open>UnknownHashError\<close>, and \<open>verify_password\<close> raises it too instead of returning
  false.
\<close>

theorem malformed_hash_counterexample:
  "fst (verify_password sample_env ''secret'' (hashed_password legacy)) = Inl UnknownHashError
   \<and> hashed_password legacy = []
   \<and> get_user sample_db ''legacy'' = Inr (Some legacy)"
  by (simp add: verify_password_def sample_verify_empty legacy_def
      get_user_legacy [unfolded legacy_def])

text \<open>
  Claim C6, amended. For a stored user whose hash the hasher does not verify the
  password against (it answers false or raises, as it does on a malformed hash such as
  the empty migration default), \<open>verify_password\<close> gives the hasher's answer unchanged,
  an exception included; \<open>authenticate_user\<close> reports failure when the answer is false
  and raises the same exception when the hasher raises; in no case does it return a
  user.
\<close>

theorem unverifiable_hash_never_authenticates:
  assumes "get_user db name = Inr (Some user)"
    and "pw_verify E pw (hashed_password user) \<noteq> Inr True"
  shows "fst (verify_password E pw (hashed_password user)) = pw_verify E pw (hashed_password user)
    \<and> fst (authenticate_user E db name pw)
         = (case pw_verify E pw (hashed_password user) of Inl e \<Rightarrow> Inl e | Inr _ \<Rightarrow> Inr None)
    \<and> (\<forall>u. fst (authenticate_user E db name pw) \<noteq> Inr (Some u))"
  using assms by (auto simp: authenticate_user_def verify_password_def split: sum.splits)

theorem unverifiable_hash_never_authenticates_witness:
  "fst (authenticate_user sample_env sample_db ''legacy'' ''secret'') = Inl UnknownHashError"
  using unverifiable_hash_never_authenticates [OF get_user_legacy, of sample_env "''secret''"]
    sample_verify_empty
  by (simp add: legacy_def)

text \<open>
  Claim C7. \<open>authenticate_user\<close> returns the stored record of a user whose password
  verifies, whatever its \<open>disabled\<close> flag: the flag is not read there.
  \<open>get_current_active_user\<close> fails exactly when \<open>disabled\<close> is true, and otherwise
  returns the record it was given, unchanged.
\<close>

theorem disabled_read_only_by_active_user_check:
  "(get_user db name = Inr (Some user) \<longrightarrow> pw_verify E pw (hashed_password user) = Inr True
      \<longrightarrow> fst (authenticate_user E db name pw) = Inr (Some user))
   \<and> ((\<exists>e. get_current_active_user current_user = Inl e) \<longleftrightarrow> disabled current_user = Some True)
   \<and> (disabled current_user \<noteq> Some True
        \<longrightarrow> get_current_active_user current_user = Inr current_user)"
  by (simp add: authenticate_user_def verify_password_def get_current_active_user_def)

theorem disabled_read_only_by_active_user_check_witness:
  "disabled alice = Some True
   \<and> fst (authenticate_user sample_env sample_db ''alice'' ''wonderland123'') = Inr (Some alice)
   \<and> (\<exists>e. get_current_active_user alice = Inl e)
   \<and> get_current_active_user johndoe = Inr johndoe"
  using disabled_read_only_by_active_user_check [of sample_db "''alice''" alice sample_env
      "''wonderland123''" alice]
    disabled_read_only_by_active_user_check [of sample_db "''alice''" alice sample_env
      "''wonderland123''" johndoe]
    get_user_alice sample_verify_alice
  by (simp add: alice_def johndoe_def)

section \<open>Tokens\<close>

text \<open>
  Claim C3. \<open>get_current_user\<close> has the token verified with the secret key and the one
  algorithm; whatever kind of \<^verbatim>\<open>InvalidTokenError\<close> the verification raises (a token that
  does not decode, a signature that does not match, an expiry that has passed), the
  outcome is the one \<open>credentials_exception\<close>, so the kind of failure cannot be told
  from the outcome.
\<close>

theorem token_failures_collapse:
  "jwt_decode E token SECRET_KEY [ALGORITHM] now = Inl (InvalidTokenError k)
   \<Longrightarrow> get_current_user E now db token = Inl credentials_exception"
  by (simp add: get_current_user_def)

theorem token_failures_collapse_witness:
  "get_current_user sample_env 5 sample_db ''not a token'' = Inl credentials_exception
   \<and> get_current_user sample_env 5 sample_db ''+1111111.beef.alice'' = Inl credentials_exception
   \<and> get_current_user sample_env 5 sample_db ''+111.09d2.alice'' = Inl credentials_exception"
  using token_failures_collapse [OF sample_decode_garbage]
    token_failures_collapse [OF sample_decode_forged]
    token_failures_collapse [OF sample_decode_expired]
  by simp

text \<open>
  Against claim C4: issued at second 2 with an \<^verbatim>\<open>expires_delta\<close> of minus one microsecond,
  the token carries the expiry second 1, before the time of issue; issued at second 1
  exactly with an \<^verbatim>\<open>expires_delta\<close> of five microseconds, it carries the expiry second
  1, which is the time of issue and not after it.
\<close>

theorem negative_delta_counterexample:
  "create_access_token sample_env 2000000 Map.empty (Some (- 1))
     = Inr (jwt_sign sample_env [''exp'' \<mapsto> Num 1] SECRET_KEY ALGORITHM)
   \<and> create_access_token sample_env 1000000 Map.empty (Some 5)
     = Inr (jwt_sign sample_env [''exp'' \<mapsto> Num 1] SECRET_KEY ALGORITHM)
   \<and> \<not> (2000000 :: int) < 1 * 1000000 \<and> \<not> (1000000 :: int) < 1 * 1000000"
  by (simp add: create_access_token_eq [where delta = "- 1"]
      create_access_token_eq [where delta = 5]
      datetime_min_def datetime_max_def numeric_dates_empty)

text \<open>
  Claim C4, amended. Let \<open>delta\<close> be the lifetime \<open>create_access_token\<close> uses: the
  given \<^verbatim>\<open>expires_delta\<close>, or 15 minutes when it is absent or zero. When the time of
  issue plus \<open>delta\<close> is outside the range of \<^verbatim>\<open>datetime\<close> the call raises
  \<open>OverflowError\<close>; otherwise the token issued is the signing of the given claims with
  \<^verbatim>\<open>exp\<close> the whole seconds of the time of issue plus \<open>delta\<close>. That expiry is
  strictly after the time of issue when \<open>delta\<close> is at least one second (so whenever
  \<^verbatim>\<open>expires_delta\<close> is absent or zero), strictly before it when \<open>delta\<close> is negative,
  and, for a positive \<open>delta\<close> below one second, not after it exactly when the sum
  falls in the same whole second as the time of issue. With a token library that
  rejects expired tokens, \<open>get_current_user\<close> fails with the credentials exception on
  every issued token once the clock has reached the expiry it carries.
\<close>

theorem expiry_future_unless_negative_delta:
  assumes "delta = (case expires_delta of None \<Rightarrow> minutes 15
                    | Some x \<Rightarrow> if x \<noteq> 0 then x else minutes 15)"
  shows "(datetime_min \<le> now + delta \<and> now + delta \<le> datetime_max \<longrightarrow>
            create_access_token E now data expires_delta
              = Inr (jwt_sign E ((numeric_dates data)(''exp'' \<mapsto> Num ((now + delta) div 1000000)))
                       SECRET_KEY ALGORITHM))
    \<and> (\<not> (datetime_min \<le> now + delta \<and> now + delta \<le> datetime_max) \<longrightarrow>
            create_access_token E now data expires_delta = Inl OverflowError)
    \<and> (1000000 \<le> delta \<longrightarrow> now < (now + delta) div 1000000 * 1000000)
    \<and> (expires_delta = None \<or> expires_delta = Some 0 \<longrightarrow> 1000000 \<le> delta)
    \<and> (delta < 0 \<longrightarrow> (now + delta) div 1000000 * 1000000 < now)
    \<and> (0 < delta \<and> delta < 1000000 \<longrightarrow>
          ((now + delta) div 1000000 * 1000000 \<le> now
             \<longleftrightarrow> (now + delta) div 1000000 = now div 1000000))
    \<and> (rejects_expired E \<and> create_access_token E now data expires_delta = Inr tok
          \<and> (now + delta) div 1000000 * 1000000 \<le> later
        \<longrightarrow> get_current_user E later db tok = Inl credentials_exception)"
proof (intro conjI impI)
  assume "datetime_min \<le> now + delta \<and> now + delta \<le> datetime_max"
  then show "create_access_token E now data expires_delta
      = Inr (jwt_sign E ((numeric_dates data)(''exp'' \<mapsto> Num ((now + delta) div 1000000)))
               SECRET_KEY ALGORITHM)"
    by (simp add: create_access_token_eq [OF assms])
next
  assume "\<not> (datetime_min \<le> now + delta \<and> now + delta \<le> datetime_max)"
  then show "create_access_token E now data expires_delta = Inl OverflowError"
    by (simp add: create_access_token_eq [OF assms])
next
  assume "1000000 \<le> delta"
  with whole_seconds_gt [of "now + delta"]
  show "now < (now + delta) div 1000000 * 1000000" by linarith
next
  assume "expires_delta = None \<or> expires_delta = Some 0"
  with assms show "1000000 \<le> delta" by (auto simp: minutes_def)
next
  assume "delta < 0"
  with whole_seconds_le [of "now + delta"]
  show "(now + delta) div 1000000 * 1000000 < now" by linarith
next
  assume d: "0 < delta \<and> delta < 1000000"
  have mono: "now div 1000000 \<le> (now + delta) div 1000000"
    using d by (intro zdiv_mono1) simp_all
  show "((now + delta) div 1000000 * 1000000 \<le> now)
      = ((now + delta) div 1000000 = now div 1000000)"
  proof
    assume "(now + delta) div 1000000 * 1000000 \<le> now"
    then have "(now + delta) div 1000000 * 1000000 div 1000000 \<le> now div 1000000"
      by (intro zdiv_mono1) simp_all
    then have "(now + delta) div 1000000 \<le> now div 1000000" by simp
    with mono show "(now + delta) div 1000000 = now div 1000000" by simp
  next
    assume "(now + delta) div 1000000 = now div 1000000"
    with whole_seconds_le [of now]
    show "(now + delta) div 1000000 * 1000000 \<le> now" by simp
  qed
next
  assume h: "rejects_expired E \<and> create_access_token E now data expires_delta = Inr tok
      \<and> (now + delta) div 1000000 * 1000000 \<le> later"
  let ?p = "(numeric_dates data)(''exp'' \<mapsto> Num ((now + delta) div 1000000))"
  from h have tok: "tok = jwt_sign E ?p SECRET_KEY ALGORITHM"
    by (simp add: create_access_token_eq [OF assms] split: if_splits)
  have "?p ''exp'' = Some (Num ((now + delta) div 1000000))" by simp
  with h have "jwt_decode E (jwt_sign E ?p SECRET_KEY ALGORITHM) SECRET_KEY [ALGORITHM] later
      = Inl (InvalidTokenError ExpiredSignatureError)"
    unfolding rejects_expired_def by blast
  then show "get_current_user E later db tok = Inl credentials_exception"
    by (simp add: tok get_current_user_def)
qed

theorem expiry_future_unless_negative_delta_witness:
  "create_access_token sample_env 1000 [''sub'' \<mapsto> Str ''alice''] (Some 5000000)
     = Inr (jwt_sign sample_env [''sub'' \<mapsto> Str ''alice'', ''exp'' \<mapsto> Num 5] SECRET_KEY ALGORITHM)
   \<and> get_current_user sample_env 5000000 sample_db
        (jwt_sign sample_env [''sub'' \<mapsto> Str ''alice'', ''exp'' \<mapsto> Num 5] SECRET_KEY ALGORITHM)
       = Inl credentials_exception
   \<and> create_access_token sample_env 1000 Map.empty (Some 0)
     = Inr (jwt_sign sample_env [''exp'' \<mapsto> Num 900] SECRET_KEY ALGORITHM)
   \<and> create_access_token sample_env datetime_max Map.empty (Some 1) = Inl OverflowError"
  using expiry_future_unless_negative_delta [of 5000000 "Some 5000000" 1000 sample_env
      "[''sub'' \<mapsto> Str ''alice'']"
      "jwt_sign sample_env [''sub'' \<mapsto> Str ''alice'', ''exp'' \<mapsto> Num 5] SECRET_KEY ALGORITHM"
      5000000 sample_db]
    expiry_future_unless_negative_delta [of "minutes 15" "Some 0" 1000 sample_env Map.empty]
    expiry_future_unless_negative_delta [of 1 "Some 1" datetime_max sample_env Map.empty]
    sample_rejects_expired
  by (simp add: numeric_dates_sub numeric_dates_empty minutes_def datetime_min_def
      datetime_max_def)

text \<open>
  Claim C9. When the token passes verification and names a subject that the store does
  not hold, \<open>get_current_user\<close> fails with the credentials exception: it returns no
  user and raises nothing else.
\<close>

theorem vanished_subject_rejected:
  "jwt_decode E token SECRET_KEY [ALGORITHM] now = Inr claims \<Longrightarrow>
   claims ''sub'' = Some (Str name) \<Longrightarrow> get_user db name = Inr None \<Longrightarrow>
   get_current_user E now db token = Inl credentials_exception"
  by (simp add: get_current_user_def)

theorem vanished_subject_rejected_witness:
  "get_current_user sample_env 5 sample_db ''+1111111.09d2.bob'' = Inl credentials_exception"
  using vanished_subject_rejected [OF sample_decode_bob _ get_user_bob] by simp

text \<open>
  Claim C10. A zero \<^verbatim>\<open>expires_delta\<close> is false in the condition of
  \<open>create_access_token\<close>, so the expiry handed to \<^verbatim>\<open>jwt.encode\<close> is the time of issue
  plus the default of 15 minutes, as when no delta is given, and not the time of issue
  itself; every other delta is added as it is. The login route passes 30 minutes, which
  is not zero, so the tokens it issues expire 30 minutes after issue, never after the
  default. In each case the call raises \<open>OverflowError\<close> instead when the sum is outside
  the range of \<^verbatim>\<open>datetime\<close>, and the token carries the whole seconds of the expiry.
\<close>

theorem zero_delta_selects_default:
  "create_access_token E now data (Some 0) =
     (if datetime_min \<le> now + minutes 15 \<and> now + minutes 15 \<le> datetime_max
      then Inr (jwt_encode E (data(''exp'' \<mapsto> Datetime (now + minutes 15))) SECRET_KEY ALGORITHM)
      else Inl OverflowError)
   \<and> create_access_token E now data None = create_access_token E now data (Some 0)
   \<and> (d \<noteq> 0 \<longrightarrow>
        create_access_token E now data (Some d) =
          (if datetime_min \<le> now + d \<and> now + d \<le> datetime_max
           then Inr (jwt_encode E (data(''exp'' \<mapsto> Datetime (now + d))) SECRET_KEY ALGORITHM)
           else Inl OverflowError))
   \<and> (fst (authenticate_user E db (form_username form_data) (form_password form_data))
          = Inr (Some user)
        \<longrightarrow> login_for_access_token E now db form_data =
              (if datetime_min \<le> now + minutes 30 \<and> now + minutes 30 \<le> datetime_max
               then Inr \<lparr>access_token = jwt_encode E
                      [''sub'' \<mapsto> Str (username user), ''exp'' \<mapsto> Datetime (now + minutes 30)]
                      SECRET_KEY ALGORITHM,
                   token_type = ''bearer''\<rparr>
               else Inl OverflowError))
   \<and> jwt_encode E (data(''exp'' \<mapsto> Datetime t)) SECRET_KEY ALGORITHM
        = jwt_sign E ((numeric_dates data)(''exp'' \<mapsto> Num (t div 1000000))) SECRET_KEY ALGORITHM
   \<and> minutes 30 \<noteq> 0 \<and> minutes 30 \<noteq> minutes 15 \<and> minutes 15 \<noteq> 0"
  by (simp add: create_access_token_def datetime_add_def login_for_access_token_def
      ACCESS_TOKEN_EXPIRE_MINUTES_def minutes_def jwt_encode_def numeric_dates_exp)

theorem zero_delta_selects_default_witness:
  "create_access_token sample_env 1000 Map.empty (Some 0)
     = Inr (jwt_encode sample_env [''exp'' \<mapsto> Datetime 900001000] SECRET_KEY ALGORITHM)
   \<and> create_access_token sample_env 1000 Map.empty None
     = Inr (jwt_encode sample_env [''exp'' \<mapsto> Datetime 900001000] SECRET_KEY ALGORITHM)
   \<and> create_access_token sample_env 1000 Map.empty (Some 7)
     = Inr (jwt_encode sample_env [''exp'' \<mapsto> Datetime 1007] SECRET_KEY ALGORITHM)
   \<and> create_access_token sample_env datetime_max Map.empty (Some 0) = Inl OverflowError
   \<and> login_for_access_token sample_env 1000 sample_db
        \<lparr>form_username = ''alice'', form_password = ''wonderland123''\<rparr>
      = Inr \<lparr>access_token = jwt_encode sample_env
                [''sub'' \<mapsto> Str ''alice'', ''exp'' \<mapsto> Datetime 1800001000] SECRET_KEY ALGORITHM,
             token_type = ''bearer''\<rparr>"
  using zero_delta_selects_default [of sample_env 1000 Map.empty 7 sample_db
      "\<lparr>form_username = ''alice'', form_password = ''wonderland123''\<rparr>" alice]
    zero_delta_selects_default [of sample_env datetime_max Map.empty 7 sample_db
      "\<lparr>form_username = ''alice'', form_password = ''wonderland123''\<rparr>" alice]
    authenticate_alice
  by (simp add: minutes_def alice_def datetime_min_def datetime_max_def)

section \<open>Registration\<close>



section \<open>Schema migration and seeding\<close>



end
